theory Spec2Isabelle
  imports Main
begin

section \<open>Checkout: plan and payment-gateway selection\<close>

text \<open>
  The component \<^verbatim>\<open>Checkout\<close> keeps three pieces of React state
  (\<^verbatim>\<open>selectedPlan\<close>, \<^verbatim>\<open>selectedGateway\<close>, \<^verbatim>\<open>gatewayResponse\<close>) and receives the
  optional property \<^verbatim>\<open>plans\<close>. A JavaScript value that may be \<^verbatim>\<open>undefined\<close> is an
  \<open>option\<close> here. Event handlers are modelled as functions from the state before the
  event to the state after it, together with the notices they raise; an event handler
  runs to completion before the next one starts.
\<close>

text \<open>
  Modelled from the spec: the interface \<^verbatim>\<open>PlansInterface\<close> is declared in
  \<^verbatim>\<open>@/types/subscription\<close>, which is not among the sources. The spec lists a plan's
  fields as identifier, name, price, currency, billing interval and description; the
  component reads exactly these (\<^verbatim>\<open>id\<close>, \<^verbatim>\<open>name\<close>, \<^verbatim>\<open>price\<close>, \<^verbatim>\<open>currency\<close>,
  \<^verbatim>\<open>invoice_interval\<close>, \<^verbatim>\<open>description\<close>). The field \<^verbatim>\<open>id\<close> is written \<open>plan_id\<close>.
\<close>

record PlansInterface =
  plan_id :: int
  name :: string
  price :: int
  currency :: string
  invoice_interval :: string
  description :: string

text \<open>
  The \<^verbatim>\<open>component\<close> of a gateway is a React element: one of the two handlers, built
  with the plan that is selected when the gateway list is built (the completion callback
  is always \<^verbatim>\<open>setGatewayResponse\<close>).
\<close>

datatype component = BankTransfer "PlansInterface option" | Paystack "PlansInterface option"

datatype icon = BanknoteIcon | BankIcon

record GatewayI =
  title :: string
  slug :: string
  component :: component
  active :: bool
  icon :: icon
  className :: string

record Checkout =
  plans :: "PlansInterface list option"
  selectedPlan :: "PlansInterface option"
  selectedGateway :: "GatewayI option"
  gatewayResponse :: "string option"

text \<open>
  \<^verbatim>\<open>arr[0]\<close> on a JavaScript array: the first element, \<^verbatim>\<open>undefined\<close> when the array is
  empty.
\<close>

definition first_elem :: "'a list \<Rightarrow> 'a option" where
  "first_elem xs = (case xs of [] \<Rightarrow> None | x # _ \<Rightarrow> Some x)"

text \<open>The gateway list is rebuilt at every render from the current \<^verbatim>\<open>selectedPlan\<close>.\<close>

definition gateways :: "Checkout \<Rightarrow> GatewayI list" where
  "gateways s =
    [\<lparr>title = ''Bank Transfer'', slug = ''bank-transfer'',
       component = BankTransfer (selectedPlan s), active = True, icon = BanknoteIcon,
       className = ''text-lg font-bold bg-gray-800 text-white rounded hover:shadow-lg''\<rparr>,
     \<lparr>title = ''Paystack'', slug = ''paystack'',
       component = Paystack (selectedPlan s), active = False, icon = BankIcon,
       className = ''text-lg font-bold bg-blue-200 text-black rounded hover:shadow-lg''\<rparr>]"


text \<open>
  \<^verbatim>\<open>selectedPaymentMethodIs\<close> returns the new state and the list of \<^verbatim>\<open>alert\<close> dialogs it
  opened. (The \<^verbatim>\<open>console.log\<close> call at its start is not modelled.)
\<close>

definition selectedPaymentMethodIs :: "string \<Rightarrow> bool \<Rightarrow> Checkout \<Rightarrow> Checkout \<times> string list" where
  "selectedPaymentMethodIs sl act s =
    (if \<not> act then (s, [''Gateway Not Available''])
     else (s\<lparr>selectedGateway := first_elem (filter (\<lambda>r. slug r = sl) (gateways s))\<rparr>, []))"

text \<open>What the component renders: a gateway's handler, or one of the two selection views.\<close>

datatype view = Handler component | SelectPaymentMethod | PlanSelection

definition render :: "Checkout \<Rightarrow> view" where
  "render s =
    (case (selectedGateway s, selectedPlan s) of
       (Some g, Some p) \<Rightarrow> Handler (component g)
     | (_, Some p) \<Rightarrow> SelectPaymentMethod
     | (_, None) \<Rightarrow> PlanSelection)"

section \<open>AddProperty: the five-step property form\<close>

subsection \<open>JavaScript values, files and previews\<close>

text \<open>
  A browser \<^verbatim>\<open>File\<close>, as far as the component looks at it: \<^verbatim>\<open>file.name\<close> and
  \<^verbatim>\<open>file.size\<close> (in bytes).
\<close>

record File =
  file_name :: string
  file_size :: nat

text \<open>
  The values a form field holds at run time. A field that was never set reads as
  \<^verbatim>\<open>undefined\<close>; \<^verbatim>\<open>null\<close> is a value of its own. Numbers are the integers (identifiers,
  amounts, counts); an array is an array of strings, which is what \<^verbatim>\<open>amenities\<close> holds.
\<close>

datatype jsval = Undefined | Null | Str string | Num int | Arr "string list" | FileV File

text \<open>JavaScript truthiness, as used by \<^verbatim>\<open>some(field => data[field])\<close>.\<close>

fun truthy :: "jsval \<Rightarrow> bool" where
  "truthy Undefined = False"
| "truthy Null = False"
| "truthy (Str s) = (s \<noteq> [])"
| "truthy (Num n) = (n \<noteq> 0)"
| "truthy (Arr xs) = True"
| "truthy (FileV f) = True"

text \<open>The type \<^verbatim>\<open>FileType\<close>: \<^verbatim>\<open>'image'\<close> is \<open>ImageFile\<close>, \<^verbatim>\<open>'video'\<close> is \<open>VideoFile\<close>.\<close>

datatype FileType = ImageFile | VideoFile

type_synonym PreviewMap = "string \<rightharpoonup> string"

record Category =
  cat_id :: int
  cat_title :: string
  cat_slug :: string

subsection \<open>Notices and requests\<close>

text \<open>\<^verbatim>\<open>showAlert(message, type)\<close> of the alert context: the calls made, in order.\<close>

datatype AlertType = Error | Info | Success

type_synonym alert = "string \<times> AlertType"

text \<open>A part of a multipart \<^verbatim>\<open>FormData\<close> body: a string or a file.\<close>

datatype part = Text string | Blob File

datatype verb = GET | POST

record request =
  verb :: verb
  url :: string
  headers :: "(string \<times> string) list"
  withCredentials :: bool
  body :: "(string \<times> part) list"

text \<open>
  How an awaited axios call settles: it resolves with the response's \<^verbatim>\<open>data\<close>, or it
  throws. \<^verbatim>\<open>axios.isAxiosError\<close> separates the errors axios made, which may carry the
  server's response (\<^verbatim>\<open>error.response?.status\<close>, \<^verbatim>\<open>error.response?.data?.message\<close>),
  from anything else that was thrown.
\<close>

record error_response =
  status :: int
  message :: "string option"

datatype thrown = AxiosError "error_response option" | Thrown string

datatype 'a settled = Resolved 'a | Rejected thrown

text \<open>
  The token in \<^verbatim>\<open>localStorage\<close>: \<^verbatim>\<open>getItem\<close> gives a string or \<^verbatim>\<open>null\<close>, and
  \<^verbatim>\<open>!token\<close> holds for \<^verbatim>\<open>null\<close> and for the empty string.
\<close>

definition no_token :: "string option \<Rightarrow> bool" where
  "no_token token = (case token of None \<Rightarrow> True | Some t \<Rightarrow> t = [])"

text \<open>The template literal \<^verbatim>\<open>`Bearer ${token}`\<close>; \<^verbatim>\<open>null\<close> is printed as \<^verbatim>\<open>null\<close>.\<close>

definition bearer :: "string option \<Rightarrow> string" where
  "bearer token = ''Bearer '' @ (case token of None \<Rightarrow> ''null'' | Some t \<Rightarrow> t)"

subsection \<open>Printing numbers and JSON\<close>

definition digit :: "nat \<Rightarrow> char" where
  "digit d = char_of (48 + d)"

fun show_nat :: "nat \<Rightarrow> string" where
  "show_nat n = (if n < 10 then [digit n] else show_nat (n div 10) @ [digit (n mod 10)])"

declare show_nat.simps [simp del]

text \<open>\<^verbatim>\<open>toString()\<close> of an integer number.\<close>

definition show_int :: "int \<Rightarrow> string" where
  "show_int i = (if i < 0 then CHR ''-'' # show_nat (nat (- i)) else show_nat (nat i))"

text \<open>\<^verbatim>\<open>Array.prototype.join\<close> with a separator.\<close>

fun join :: "string \<Rightarrow> string list \<Rightarrow> string" where
  "join sep [] = []"
| "join sep [x] = x"
| "join sep (x # y # ys) = x @ sep @ join sep (y # ys)"

text \<open>
  \<^verbatim>\<open>JSON.stringify\<close> of an array of strings: each string between double quotes, with
  the quote, the backslash and the control characters escaped.
\<close>

definition hex_digit :: "nat \<Rightarrow> char" where
  "hex_digit d = (if d < 10 then char_of (48 + d) else char_of (87 + d))"

definition json_escape :: "char \<Rightarrow> string" where
  "json_escape c =
    (if c = CHR 0x22 then [CHR 0x5C, CHR 0x22]
     else if c = CHR 0x5C then [CHR 0x5C, CHR 0x5C]
     else if c = CHR 0x08 then [CHR 0x5C, CHR ''b'']
     else if c = CHR 0x0C then [CHR 0x5C, CHR ''f'']
     else if c = CHR 0x0A then [CHR 0x5C, CHR ''n'']
     else if c = CHR 0x0D then [CHR 0x5C, CHR ''r'']
     else if c = CHR 0x09 then [CHR 0x5C, CHR ''t'']
     else if (of_char c :: nat) < 32
       then [CHR 0x5C, CHR ''u'', CHR ''0'', CHR ''0'',
             hex_digit (of_char c div 16), hex_digit (of_char c mod 16)]
     else [c])"

definition json_string :: "string \<Rightarrow> string" where
  "json_string s = [CHR 0x22] @ concat (map json_escape s) @ [CHR 0x22]"

definition JSON_stringify :: "string list \<Rightarrow> string" where
  "JSON_stringify xs = ''['' @ join '','' (map json_string xs) @ '']''"

subsection \<open>Component state\<close>

text \<open>
  The values of the form are those of react-hook-form's \<^verbatim>\<open>useForm\<close>: \<^verbatim>\<open>watch(name)\<close>
  reads a field and \<^verbatim>\<open>setValue(name, value)\<close> writes it. A field with no default value
  reads as \<^verbatim>\<open>undefined\<close> until it is set or an input for it is rendered.
\<close>

record AddProperty =
  step :: int
  categories :: "Category list"
  isLoading :: bool
  imagePreview :: PreviewMap
  videoPreview :: PreviewMap
  selectedAmenities :: "string list"
  formValues :: "string \<Rightarrow> jsval"

definition defaultValues :: "string \<Rightarrow> jsval" where
  "defaultValues =
    (\<lambda>_. Undefined)(''amenities'' := Arr [], ''currency_code'' := Str ''NGN'',
                     ''country_code'' := Str ''NG'')"

text \<open>
  The state of a freshly mounted instance: the arguments of the \<^verbatim>\<open>useState\<close> calls, and
  the values of the form after the first render. That render shows step 1, whose four
  inputs (\<^verbatim>\<open>category_id\<close>, \<^verbatim>\<open>title\<close>, \<^verbatim>\<open>number_of_rooms\<close>, \<^verbatim>\<open>description\<close>) are given to
  \<^verbatim>\<open>register\<close>; none of them has a default value, so each reads as the value of its empty
  input, the empty string. The inputs of the later steps are not rendered yet, and their
  fields read as the default values give them.
\<close>

definition mounted :: AddProperty where
  "mounted =
    \<lparr>step = 1, categories = [], isLoading = False, imagePreview = Map.empty,
     videoPreview = Map.empty, selectedAmenities = [],
     formValues = defaultValues(''category_id'' := Str [], ''title'' := Str [],
                                ''number_of_rooms'' := Str [], ''description'' := Str [])\<rparr>"

definition setValue :: "string \<Rightarrow> jsval \<Rightarrow> AddProperty \<Rightarrow> AddProperty" where
  "setValue k v s = s\<lparr>formValues := (formValues s)(k := v)\<rparr>"

definition watch :: "AddProperty \<Rightarrow> string \<Rightarrow> jsval" where
  "watch s k = formValues s k"

definition imageFields :: "string list" where
  "imageFields = [''image1'', ''image2'', ''image3'', ''image4'', ''image5'']"

definition videoFields :: "string list" where
  "videoFields = [''video1'', ''video2'', ''video3'', ''video4'', ''video5'']"

definition MAX_IMAGE_SIZE :: nat where
  "MAX_IMAGE_SIZE = 3 * 1024 * 1024"

definition MAX_VIDEO_SIZE :: nat where
  "MAX_VIDEO_SIZE = 10 * 1024 * 1024"

subsection \<open>Amenities, categories, files\<close>

definition handleAmenityToggle :: "string \<Rightarrow> AddProperty \<Rightarrow> AddProperty" where
  "handleAmenityToggle amenity s =
    (let newAmenities =
       (if amenity \<in> set (selectedAmenities s)
        then filter (\<lambda>a. a \<noteq> amenity) (selectedAmenities s)
        else selectedAmenities s @ [amenity])
     in setValue ''amenities'' (Arr newAmenities) (s\<lparr>selectedAmenities := newAmenities\<rparr>))"

text \<open>
  \<^verbatim>\<open>fetchCategories\<close>, run once after mounting. \<open>token\<close> is what \<^verbatim>\<open>getAuthToken()\<close>
  returns, \<open>http\<close> is how the request settles: the response's \<^verbatim>\<open>data\<close> (absent, or its
  \<^verbatim>\<open>success\<close> flag and \<^verbatim>\<open>data\<close> list) or the error thrown. Reading \<^verbatim>\<open>success\<close> of an
  absent \<^verbatim>\<open>data\<close> throws inside the \<^verbatim>\<open>try\<close>, and the \<^verbatim>\<open>catch\<close> ignores whatever is
  not an axios error with status 401. The function returns the new state, the notices
  shown and the requests sent.
\<close>

definition fetchCategories ::
  "string option \<Rightarrow> (bool \<times> Category list) option settled \<Rightarrow> AddProperty
     \<Rightarrow> AddProperty \<times> alert list \<times> request list" where
  "fetchCategories token http s =
    (let req = \<lparr>verb = GET, url = ''https://api.rent9ja.com.ng/api/apartment-types'',
                headers = [(''Authorization'', bearer token), (''Accept'', ''application/json'')],
                withCredentials = True, body = []\<rparr>
     in case http of
          Resolved (Some (success, cats)) \<Rightarrow>
            (if success then s\<lparr>categories := cats\<rparr> else s, [], [req])
        | Resolved None \<Rightarrow> (s, [], [req])
        | Rejected (AxiosError r) \<Rightarrow>
            (s, if map_option status r = Some 401
                then [(''Please login to continue'', Error)] else [], [req])
        | Rejected (Thrown _) \<Rightarrow> (s, [], [req]))"

text \<open>
  \<^verbatim>\<open>handleFileChange(fieldName, type)\<close> applied to a change event whose first file is
  \<open>file\<close> (\<open>None\<close> when the event carries no file). Besides the state and the notices it
  returns the reads it started on a \<^verbatim>\<open>FileReader\<close>; the preview is written later, by
  \<^verbatim>\<open>reader.onloadend\<close>.
\<close>

definition handleFileChange ::
  "string \<Rightarrow> FileType \<Rightarrow> File option \<Rightarrow> AddProperty
     \<Rightarrow> AddProperty \<times> alert list \<times> (string \<times> FileType \<times> File) list" where
  "handleFileChange fieldName ty file s =
    (case file of
       None \<Rightarrow> (s, [], [])
     | Some f \<Rightarrow>
         (let maxSize = (if ty = ImageFile then MAX_IMAGE_SIZE else MAX_VIDEO_SIZE)
          in if file_size f > maxSize
             then (s, [(''File '' @ file_name f @ '' exceeds maximum size limit of '' @
                          show_nat (maxSize div (1024 * 1024)) @ ''MB'', Error)], [])
             else (setValue fieldName (FileV f) s, [], [(fieldName, ty, f)])))"

text \<open>
  The callback \<^verbatim>\<open>reader.onloadend\<close> of a read started by \<^verbatim>\<open>handleFileChange\<close>. \<open>src\<close>
  is the string stored: \<^verbatim>\<open>reader.result\<close> (a data URL) for an image,
  \<^verbatim>\<open>URL.createObjectURL(file)\<close> for a video.
\<close>

definition onloadend :: "string \<Rightarrow> FileType \<Rightarrow> string \<Rightarrow> AddProperty \<Rightarrow> AddProperty" where
  "onloadend fieldName ty src s =
    (if ty = ImageFile then s\<lparr>imagePreview := (imagePreview s)(fieldName \<mapsto> src)\<rparr>
     else s\<lparr>videoPreview := (videoPreview s)(fieldName \<mapsto> src)\<rparr>)"

definition removeFile :: "string \<Rightarrow> FileType \<Rightarrow> AddProperty \<Rightarrow> AddProperty" where
  "removeFile fieldName ty s =
    (let s1 = setValue fieldName Null s
     in if ty = ImageFile then s1\<lparr>imagePreview := (imagePreview s1)(fieldName := None)\<rparr>
        else s1\<lparr>videoPreview := (videoPreview s1)(fieldName := None)\<rparr>)"

subsection \<open>Steps\<close>

text \<open>
  \<^verbatim>\<open>validateStep\<close>. react-hook-form's \<^verbatim>\<open>trigger\<close> is a parameter: a function of the field
  names to validate and of the form's values. The result is the verdict and the notices
  shown.
\<close>

definition validateStep ::
  "(string list \<Rightarrow> (string \<Rightarrow> jsval) \<Rightarrow> bool) \<Rightarrow> AddProperty \<Rightarrow> bool \<times> alert list" where
  "validateStep trigger s =
    (let validated = (\<lambda>fieldsToValidate. (trigger fieldsToValidate (formValues s), []))
     in if step s = 1
          then validated [''category_id'', ''title'', ''number_of_rooms'', ''description'']
        else if step s = 2
          then validated [''amount'', ''currency_code'', ''security_deposit'']
        else if step s = 3
          then validated [''duration'', ''duration_type'', ''amenities'']
        else if step s = 4
          then validated [''country_code'', ''state_code'', ''city_code'']
        else if step s = 5
          then (let hasImage = list_ex (\<lambda>field. truthy (watch s field)) imageFields;
                    hasVideo = list_ex (\<lambda>field. truthy (watch s field)) videoFields
                in if \<not> hasImage then (False, [(''Please upload at least one image'', Info)])
                   else if \<not> hasVideo then (False, [(''Please upload at least one video'', Info)])
                   else (True, []))
        else validated [])"

definition nextStep ::
  "(string list \<Rightarrow> (string \<Rightarrow> jsval) \<Rightarrow> bool) \<Rightarrow> AddProperty \<Rightarrow> AddProperty \<times> alert list" where
  "nextStep trigger s =
    (let (isValid, shown) = validateStep trigger s
     in (if isValid then s\<lparr>step := min (step s + 1) 5\<rparr> else s, shown))"

definition prevStep :: "AddProperty \<Rightarrow> AddProperty" where
  "prevStep s = s\<lparr>step := max (step s - 1) 1\<rparr>"

subsection \<open>Submission\<close>

text \<open>
  The argument \<^verbatim>\<open>data\<close> of \<^verbatim>\<open>onSubmit\<close> is a JavaScript object: the list of its entries
  in the order \<^verbatim>\<open>Object.entries\<close> gives them. \<^verbatim>\<open>data[field]\<close> is \<^verbatim>\<open>undefined\<close> for a
  key the object does not have.
\<close>

definition lookup :: "(string \<times> jsval) list \<Rightarrow> string \<Rightarrow> jsval" where
  "lookup data k = (case map_of data k of None \<Rightarrow> Undefined | Some v \<Rightarrow> v)"

text \<open>
  One round of the \<^verbatim>\<open>forEach\<close> that fills the \<^verbatim>\<open>FormData\<close>: what it appends for an
  entry. The first argument is \<^verbatim>\<open>selectedAmenities\<close>. \<^verbatim>\<open>toString()\<close> of a string is the
  string, of a number its decimal form, of an array its elements joined by commas.
\<close>

fun formData_entry :: "string list \<Rightarrow> string \<times> jsval \<Rightarrow> (string \<times> part) list" where
  "formData_entry amenities (key, FileV f) = [(key, Blob f)]"
| "formData_entry amenities (key, v) =
    (if key = ''amenities'' then [(key, Text (JSON_stringify amenities))]
     else case v of
            Null \<Rightarrow> []
          | Undefined \<Rightarrow> []
          | Str str \<Rightarrow> [(key, Text str)]
          | Num n \<Rightarrow> [(key, Text (show_int n))]
          | Arr xs \<Rightarrow> [(key, Text (join '','' xs))])"

definition buildFormData :: "string list \<Rightarrow> (string \<times> jsval) list \<Rightarrow> (string \<times> part) list" where
  "buildFormData amenities data =
    concat (map (formData_entry amenities) data) @
    [(''published'', Text ''false''), (''can_rate'', Text ''false'')]"

text \<open>The \<^verbatim>\<open>catch\<close> block of \<^verbatim>\<open>onSubmit\<close>: the notices it shows for what was thrown.\<close>

definition submit_failed :: "thrown \<Rightarrow> alert list" where
  "submit_failed e =
    (case e of
       AxiosError r \<Rightarrow>
         (if map_option status r = Some 401
            then [(''Your session has expired. Please login again.'', Error)]
          else if map_option status r = Some 503
            then [(''Service temporarily unavailable. Please try again later.'', Error)]
          else [(case Option.bind r message of
                   Some m \<Rightarrow> if m \<noteq> [] then m else ''Failed to add property. Please try again.''
                 | None \<Rightarrow> ''Failed to add property. Please try again.'', Error)])
     | Thrown _ \<Rightarrow> [])"

text \<open>The branch of \<^verbatim>\<open>onSubmit\<close> taken when \<^verbatim>\<open>response.data.success\<close> is truthy.\<close>

definition reset :: "AddProperty \<Rightarrow> AddProperty" where
  "reset s =
    (let s1 = fold (\<lambda>(k, v). setValue k v)
                [(''category_id'', Num 0), (''title'', Str []), (''description'', Null),
                 (''number_of_rooms'', Null), (''amount'', Num 0),
                 (''currency_code'', Str ''NGN''), (''security_deposit'', Null),
                 (''security_deposit_currency_code'', Null), (''duration'', Num 0),
                 (''duration_type'', Str ''month''), (''amenities'', Arr []),
                 (''country_code'', Str ''NG''), (''state_code'', Str []),
                 (''city_code'', Str [])] s;
         s2 = fold (\<lambda>field. setValue field Null) imageFields s1;
         s3 = fold (\<lambda>field. setValue field Null) videoFields s2
     in s3\<lparr>imagePreview := Map.empty, videoPreview := Map.empty, selectedAmenities := [],
           step := 1\<rparr>)"

text \<open>
  \<^verbatim>\<open>onSubmit(data)\<close>. \<open>token\<close> is what \<^verbatim>\<open>getAuthToken()\<close> returns; \<open>http\<close> is how the
  awaited \<^verbatim>\<open>axios.post\<close> settles: the response's \<^verbatim>\<open>data\<close> (absent, or the truthiness
  of its \<^verbatim>\<open>success\<close> flag) or the error thrown. Reading \<^verbatim>\<open>success\<close> of an absent
  \<^verbatim>\<open>data\<close> throws a \<^verbatim>\<open>TypeError\<close> inside the \<^verbatim>\<open>try\<close>. \<^verbatim>\<open>isLoading\<close> is true from
  \<^verbatim>\<open>setIsLoading(true)\<close> until the handler ends; the state returned is the one at the
  end. The function returns the new state, the notices shown and the requests sent.
\<close>

definition onSubmit ::
  "string option \<Rightarrow> bool option settled \<Rightarrow> (string \<times> jsval) list \<Rightarrow> AddProperty
     \<Rightarrow> AddProperty \<times> alert list \<times> request list" where
  "onSubmit token http data s =
    (if step s \<noteq> 5 then (s, [], [])
     else
       let hasImage = list_ex (\<lambda>field. truthy (lookup data field)) imageFields;
           hasVideo = list_ex (\<lambda>field. truthy (lookup data field)) videoFields
       in if \<not> hasImage \<or> \<not> hasVideo
          then (s, [(''Please upload at least one image and one video'', Error)], [])
          else
            let formData = buildFormData (selectedAmenities s) data
            in if no_token token
               then (s\<lparr>isLoading := False\<rparr>, [(''Please login to add a property'', Error)], [])
               else
                 let req = \<lparr>verb = POST, url = ''https://api.rent9ja.com.ng/api/apartment'',
                            headers = [(''Authorization'', bearer token),
                                       (''Accept'', ''application/json''),
                                       (''Content-Type'', ''multipart/form-data'')],
                            withCredentials = True, body = formData\<rparr>
                 in case http of
                      Resolved (Some success) \<Rightarrow>
                        if success
                        then ((reset s)\<lparr>isLoading := False\<rparr>,
                              [(''Property successfully added!'', Success)], [req])
                        else (s\<lparr>isLoading := False\<rparr>, [], [req])
                    | Resolved None \<Rightarrow>
                        (s\<lparr>isLoading := False\<rparr>,
                         submit_failed (Thrown ''TypeError''), [req])
                    | Rejected e \<Rightarrow> (s\<lparr>isLoading := False\<rparr>, submit_failed e, [req]))"

subsection \<open>Subscriptions\<close>

text \<open>
  \<^verbatim>\<open>getUserSubscriptions(page, search)\<close>. \<open>baseURL\<close> comes from the configuration,
  \<open>token\<close> is \<^verbatim>\<open>localStorage.getItem('token')\<close>, \<open>http\<close> is how the awaited \<^verbatim>\<open>axios.get\<close>
  settles. The result is what the function returns (\<open>Inr\<close>) or throws (\<open>Inl\<close>), with the
  requests sent.
\<close>

definition getUserSubscriptions ::
  "string \<Rightarrow> string option \<Rightarrow> 'a settled \<Rightarrow> int \<Rightarrow> string \<Rightarrow> (thrown + 'a) \<times> request list" where
  "getUserSubscriptions baseURL token http page search =
    (if no_token token then (Inl (Thrown ''No authentication token found''), [])
     else
       let req = \<lparr>verb = GET,
                  url = baseURL @ ''/subscriptions?page='' @ show_int page @ ''&search='' @ search,
                  headers = [(''Authorization'', bearer token), (''Accept'', ''application/json'')],
                  withCredentials = False, body = []\<rparr>
       in (case http of Resolved d \<Rightarrow> Inr d | Rejected e \<Rightarrow> Inl e, [req]))"

subsection \<open>Reachable states\<close>

text \<open>
  The events of the form, as the markup wires them: the category fetch after mounting,
  input into one of the fields given to \<^verbatim>\<open>register\<close>, an amenity checkbox, a file input
  of an image slot or of a video slot with the end of the read it starts, the removal
  button of a slot, the two step buttons, and the submission of the form. An input that
  is rendered for the first time reads as the empty string; this is the input event with
  the empty string.
\<close>

definition registered :: "string list" where
  "registered =
    [''category_id'', ''title'', ''number_of_rooms'', ''description'', ''amount'',
     ''currency_code'', ''security_deposit'', ''duration'', ''duration_type'',
     ''country_code'', ''state_code'', ''city_code'']"

definition slot :: "string \<Rightarrow> FileType \<Rightarrow> bool" where
  "slot fieldName ty =
    (if ty = ImageFile then fieldName \<in> set imageFields else fieldName \<in> set videoFields)"

datatype event =
    CategoriesFetched "string option" "(bool \<times> Category list) option settled"
  | FieldInput string string
  | AmenityToggle string
  | FileChange string FileType "File option"
  | LoadEnd string FileType string
  | RemoveFile string FileType
  | NextStep "string list \<Rightarrow> (string \<Rightarrow> jsval) \<Rightarrow> bool"
  | PrevStep
  | Submit "string option" "bool option settled" "(string \<times> jsval) list"

fun dispatch :: "event \<Rightarrow> AddProperty \<Rightarrow> AddProperty" where
  "dispatch (CategoriesFetched token http) s = fst (fetchCategories token http s)"
| "dispatch (FieldInput fieldName v) s =
    (if fieldName \<in> set registered then setValue fieldName (Str v) s else s)"
| "dispatch (AmenityToggle amenity) s = handleAmenityToggle amenity s"
| "dispatch (FileChange fieldName ty file) s =
    (if slot fieldName ty then fst (handleFileChange fieldName ty file s) else s)"
| "dispatch (LoadEnd fieldName ty src) s =
    (if slot fieldName ty then onloadend fieldName ty src s else s)"
| "dispatch (RemoveFile fieldName ty) s =
    (if slot fieldName ty then removeFile fieldName ty s else s)"
| "dispatch (NextStep trigger) s = fst (nextStep trigger s)"
| "dispatch PrevStep s = prevStep s"
| "dispatch (Submit token http data) s = fst (onSubmit token http data s)"

inductive reachable :: "AddProperty \<Rightarrow> bool" where
  reachable_mounted: "reachable mounted"
| reachable_event: "reachable s \<Longrightarrow> reachable (dispatch e s)"

subsection \<open>Files in slots\<close>

text \<open>\<^verbatim>\<open>value instanceof File\<close>.\<close>

fun instanceof_File :: "jsval \<Rightarrow> bool" where
  "instanceof_File (FileV f) = True"
| "instanceof_File v = False"

text \<open>
  The interface \<^verbatim>\<open>PropertyFormData\<close> gives the ten slots the type \<^verbatim>\<open>File | null\<close>; a slot
  that was never set is \<^verbatim>\<open>undefined\<close>.
\<close>

fun slot_value :: "jsval \<Rightarrow> bool" where
  "slot_value (FileV f) = True"
| "slot_value Null = True"
| "slot_value Undefined = True"
| "slot_value v = False"

definition slots_typed :: "(string \<Rightarrow> jsval) \<Rightarrow> bool" where
  "slots_typed values = list_all (\<lambda>field. slot_value (values field)) (imageFields @ videoFields)"

section \<open>Example inputs\<close>

text \<open>
  The plan of the checkout scenario, a checkout that offers it with nothing selected yet,
  and a checkout in which it is selected.
\<close>

definition basic_plan :: PlansInterface where
  "basic_plan =
    \<lparr>plan_id = 1, name = ''Basic'', price = 1000, currency = [CHR 0xE2, CHR 0x82, CHR 0xA6],
     invoice_interval = ''month'', description = []\<rparr>"


definition basic_chosen :: Checkout where
  "basic_chosen =
    \<lparr>plans = Some [basic_plan], selectedPlan = Some basic_plan, selectedGateway = None,
     gatewayResponse = None\<rparr>"

text \<open>An image of 2 MB, a video of 5 MB, and an image of 4 MB, which is over the limit.\<close>

definition photo :: File where
  "photo = \<lparr>file_name = ''front.jpg'', file_size = 2 * 1024 * 1024\<rparr>"

definition clip :: File where
  "clip = \<lparr>file_name = ''tour.mp4'', file_size = 5 * 1024 * 1024\<rparr>"

definition poster :: File where
  "poster = \<lparr>file_name = ''poster.png'', file_size = 4 * 1024 * 1024\<rparr>"

text \<open>
  The form on its last step, with one image, one video and one amenity chosen, and the
  object \<^verbatim>\<open>handleSubmit\<close> passes to \<^verbatim>\<open>onSubmit\<close> for it.
\<close>

definition listing :: "(string \<times> jsval) list" where
  "listing =
    [(''amenities'', Arr [''WiFi'']), (''currency_code'', Str ''NGN''),
     (''country_code'', Str ''NG''), (''category_id'', Str ''2''), (''title'', Str ''Flat''),
     (''number_of_rooms'', Str ''3''), (''description'', Null), (''amount'', Str ''1000''),
     (''security_deposit'', Str []), (''duration'', Str ''12''),
     (''duration_type'', Str ''month''), (''state_code'', Str ''LA''),
     (''city_code'', Str ''IKJ''), (''image1'', FileV photo), (''video1'', FileV clip)]"

definition media_step :: AddProperty where
  "media_step =
    \<lparr>step = 5, categories = [], isLoading = False,
     imagePreview = [''image1'' \<mapsto> ''data:image/jpeg;base64,AAAA''],
     videoPreview = [''video1'' \<mapsto> ''blob:rent/1''],
     selectedAmenities = [''WiFi''], formValues = lookup listing\<rparr>"

section \<open>Checkout: properties\<close>





lemma slug_unique:
  "g \<in> set (gateways s) \<Longrightarrow> filter (\<lambda>r. slug r = slug g) (gateways s) = [g]"
  by (auto simp: gateways_def)

text \<open>
  C6. For every gateway of the list, \<^verbatim>\<open>selectedPaymentMethodIs\<close> with \<^verbatim>\<open>active = false\<close>
  leaves the whole state, \<^verbatim>\<open>selectedGateway\<close> included, as it was and opens the notice;
  with \<^verbatim>\<open>active = true\<close> it sets \<^verbatim>\<open>selectedGateway\<close> to that gateway and opens no
  notice, and then, if a plan is selected, what is rendered is the handler component of
  that gateway and of no other gateway of the list.
\<close>

theorem selectedPaymentMethodIs_gateway:
  assumes "g \<in> set (gateways s)"
  shows "selectedPaymentMethodIs (slug g) False s = (s, [''Gateway Not Available'']) \<and>
         selectedPaymentMethodIs (slug g) True s = (s\<lparr>selectedGateway := Some g\<rparr>, []) \<and>
         (\<forall>p. selectedPlan s = Some p \<longrightarrow>
            render (fst (selectedPaymentMethodIs (slug g) True s)) = Handler (component g) \<and>
            (\<forall>g' \<in> set (gateways (fst (selectedPaymentMethodIs (slug g) True s))). g' \<noteq> g \<longrightarrow>
               render (fst (selectedPaymentMethodIs (slug g) True s)) \<noteq> Handler (component g')))"
  using assms
  apply (simp add: selectedPaymentMethodIs_def slug_unique first_elem_def render_def)
  apply (auto simp: gateways_def)
  done

text \<open>
  The scenario of the specification: with the plan 1 selected, choosing the bank transfer
  renders the bank-transfer handler for that plan, and not the Paystack handler.
\<close>

theorem selectedPaymentMethodIs_gateway_witness:
  "hd (gateways basic_chosen) \<in> set (gateways basic_chosen) \<and>
   slug (hd (gateways basic_chosen)) = ''bank-transfer'' \<and>
   selectedPlan basic_chosen = Some basic_plan \<and>
   snd (selectedPaymentMethodIs ''bank-transfer'' False basic_chosen) = [''Gateway Not Available''] \<and>
   render (fst (selectedPaymentMethodIs ''bank-transfer'' True basic_chosen)) =
     Handler (BankTransfer (Some basic_plan)) \<and>
   render (fst (selectedPaymentMethodIs ''bank-transfer'' True basic_chosen)) \<noteq>
     Handler (Paystack (Some basic_plan))"
proof -
  have g: "hd (gateways basic_chosen) \<in> set (gateways basic_chosen)"
    by (simp add: gateways_def)
  have sl: "slug (hd (gateways basic_chosen)) = ''bank-transfer''"
    by (simp add: gateways_def)
  have pl: "selectedPlan basic_chosen = Some basic_plan"
    by (simp add: basic_chosen_def)
  have co: "component (hd (gateways basic_chosen)) = BankTransfer (Some basic_plan)"
    by (simp add: gateways_def basic_chosen_def)
  note fact = selectedPaymentMethodIs_gateway [OF g, unfolded sl co]
  from fact have off:
    "selectedPaymentMethodIs ''bank-transfer'' False basic_chosen =
       (basic_chosen, [''Gateway Not Available''])"
    by (rule conjunct1)
  from fact pl have on:
    "render (fst (selectedPaymentMethodIs ''bank-transfer'' True basic_chosen)) =
       Handler (BankTransfer (Some basic_plan))"
    by blast
  show ?thesis
    using g sl pl by (simp add: off on)
qed

section \<open>AddProperty: properties\<close>

subsection \<open>Files\<close>

lemma show_limits: "show_nat 3 = ''3''" "show_nat 10 = ''10''"
  by code_simp+

text \<open>
  C4. The limits are 3 * 1024 * 1024 bytes for an image and 10 * 1024 * 1024 bytes for
  a video. For every file larger than the limit of its type, \<^verbatim>\<open>handleFileChange\<close> returns
  the state it was given (no form field, no preview map and nothing else changes), shows
  one notice, and starts no read, so no preview entry is written later either.
\<close>

theorem handleFileChange_oversize:
  assumes "file_size f > (if ty = ImageFile then MAX_IMAGE_SIZE else MAX_VIDEO_SIZE)"
  shows "MAX_IMAGE_SIZE = 3 * 1024 * 1024 \<and> MAX_VIDEO_SIZE = 10 * 1024 * 1024 \<and>
         handleFileChange fieldName ty (Some f) s =
           (s, [(''File '' @ file_name f @ '' exceeds maximum size limit of '' @
                  (if ty = ImageFile then ''3'' else ''10'') @ ''MB'', Error)], [])"
  using assms
  by (simp add: handleFileChange_def MAX_IMAGE_SIZE_def MAX_VIDEO_SIZE_def show_limits)

text \<open>An image of 4 MB offered to the second image slot.\<close>

theorem handleFileChange_oversize_witness:
  "file_size poster > MAX_IMAGE_SIZE \<and>
   handleFileChange ''image2'' ImageFile (Some poster) media_step =
     (media_step, [(''File poster.png exceeds maximum size limit of 3MB'', Error)], [])"
  using handleFileChange_oversize [of ImageFile poster "''image2''" media_step]
  by (simp add: poster_def MAX_IMAGE_SIZE_def)

subsection \<open>Validation of the media step\<close>

lemma truthy_slot: "slot_value v \<Longrightarrow> truthy v = instanceof_File v"
  by (cases v) auto

lemma list_ex_slots:
  assumes "list_all (\<lambda>field. slot_value (values field)) names"
  shows "list_ex (\<lambda>field. truthy (values field)) names =
         (\<exists>field \<in> set names. instanceof_File (values field))"
  using assms by (induction names) (auto simp: truthy_slot)

text \<open>
  C3. On step 5, with the ten slots holding what their type allows (a file, \<^verbatim>\<open>null\<close> or
  nothing), \<^verbatim>\<open>validateStep\<close> returns false if and only if no image slot holds a file or no
  video slot holds a file. The verdict does not depend on \<^verbatim>\<open>trigger\<close>, that is on the
  validity of any other field. When the verdict is false, one notice is shown.
\<close>

theorem validateStep_media:
  assumes "step s = 5" and "slots_typed (formValues s)"
  shows "(fst (validateStep trigger s) = False \<longleftrightarrow>
            (\<forall>field \<in> set imageFields. \<not> instanceof_File (formValues s field)) \<or>
            (\<forall>field \<in> set videoFields. \<not> instanceof_File (formValues s field))) \<and>
         (fst (validateStep trigger s) = False \<longrightarrow>
            snd (validateStep trigger s) = [(''Please upload at least one image'', Info)] \<or>
            snd (validateStep trigger s) = [(''Please upload at least one video'', Info)])"
proof -
  from assms(2) have im: "list_all (\<lambda>field. slot_value (formValues s field)) imageFields"
    and vi: "list_all (\<lambda>field. slot_value (formValues s field)) videoFields"
    by (simp_all add: slots_typed_def)
  show ?thesis
    using assms(1) list_ex_slots [OF im] list_ex_slots [OF vi]
    by (auto simp: validateStep_def watch_def Let_def)
qed

text \<open>
  The same at the form of the examples after its video was removed: an image is attached,
  no video is, and the verdict is false although \<^verbatim>\<open>trigger\<close> accepts every field.
\<close>

theorem validateStep_media_witness:
  "step (removeFile ''video1'' VideoFile media_step) = 5 \<and>
   slots_typed (formValues (removeFile ''video1'' VideoFile media_step)) \<and>
   instanceof_File (formValues (removeFile ''video1'' VideoFile media_step) ''image1'') \<and>
   \<not> list_ex (\<lambda>field. instanceof_File
                  (formValues (removeFile ''video1'' VideoFile media_step) field)) videoFields \<and>
   fst (validateStep (\<lambda>names values. True) (removeFile ''video1'' VideoFile media_step)) = False"
proof -
  let ?s = "removeFile ''video1'' VideoFile media_step"
  have st: "step ?s = 5"
    by (simp add: removeFile_def setValue_def media_step_def Let_def)
  have ty: "slots_typed (formValues ?s)"
    by (simp add: removeFile_def setValue_def media_step_def Let_def slots_typed_def
        imageFields_def videoFields_def lookup_def listing_def)
  have im: "instanceof_File (formValues ?s ''image1'')"
    by (simp add: removeFile_def setValue_def media_step_def Let_def lookup_def listing_def)
  have vi: "\<forall>field \<in> set videoFields. \<not> instanceof_File (formValues ?s field)"
    by (simp add: removeFile_def setValue_def media_step_def Let_def videoFields_def
        lookup_def listing_def)
  from validateStep_media [OF st ty, of "\<lambda>names values. True"] vi
  have "fst (validateStep (\<lambda>names values. True) ?s) = False"
    by blast
  moreover from vi
  have "\<not> list_ex (\<lambda>field. instanceof_File (formValues ?s field)) videoFields"
    by (simp add: list_ex_iff)
  ultimately show ?thesis
    using st ty im by (intro conjI)
qed

subsection \<open>Invariants of the reachable states\<close>

text \<open>
  What \<^verbatim>\<open>onSubmit\<close> can do to the state: nothing, end the loading, or reset and end the
  loading.
\<close>

lemma onSubmit_state:
  "fst (onSubmit token http data s) = s \<or>
   fst (onSubmit token http data s) = s\<lparr>isLoading := False\<rparr> \<or>
   fst (onSubmit token http data s) = (reset s)\<lparr>isLoading := False\<rparr>"
  by (simp add: onSubmit_def Let_def split: settled.splits option.splits)

lemma formValues_reset:
  "formValues (reset s) =
    (\<lambda>k. if k \<in> set imageFields \<or> k \<in> set videoFields then Null
         else if k = ''category_id'' \<or> k = ''amount'' \<or> k = ''duration'' then Num 0
         else if k = ''title'' \<or> k = ''state_code'' \<or> k = ''city_code'' then Str []
         else if k = ''description'' \<or> k = ''number_of_rooms'' \<or> k = ''security_deposit'' \<or>
                 k = ''security_deposit_currency_code'' then Null
         else if k = ''currency_code'' then Str ''NGN''
         else if k = ''country_code'' then Str ''NG''
         else if k = ''duration_type'' then Str ''month''
         else if k = ''amenities'' then Arr []
         else formValues s k)"
  by (rule ext) (simp add: reset_def setValue_def imageFields_def videoFields_def)

lemma reset_fields:
  "step (reset s) = 1" "isLoading (reset s) = isLoading s" "categories (reset s) = categories s"
  "imagePreview (reset s) = Map.empty" "videoPreview (reset s) = Map.empty"
  "selectedAmenities (reset s) = []"
  by (simp_all add: reset_def setValue_def imageFields_def videoFields_def)

lemma step_onSubmit: "step (fst (onSubmit token http data s)) = step s \<or> step (fst (onSubmit token http data s)) = 1"
  using onSubmit_state [of token http data s] by (auto simp: reset_fields)

lemma step_dispatch:
  "1 \<le> step s \<and> step s \<le> 5 \<Longrightarrow> 1 \<le> step (dispatch e s) \<and> step (dispatch e s) \<le> 5"
proof (cases e)
  case (Submit token http data)
  then show "1 \<le> step s \<and> step s \<le> 5 \<Longrightarrow> ?thesis"
    using step_onSubmit [of token http data s] by auto
qed (auto simp: fetchCategories_def setValue_def handleAmenityToggle_def handleFileChange_def
        onloadend_def removeFile_def nextStep_def prevStep_def Let_def
        split: settled.splits option.splits thrown.splits prod.splits)

lemma reachable_step: "reachable s \<Longrightarrow> 1 \<le> step s \<and> step s \<le> 5"
  by (induction rule: reachable.induct) (simp_all add: mounted_def step_dispatch)

text \<open>
  The ten slots only ever hold a file, \<^verbatim>\<open>null\<close> or nothing: they are written by
  \<^verbatim>\<open>handleFileChange\<close>, \<^verbatim>\<open>removeFile\<close> and the reset, and the file inputs are not given to
  \<^verbatim>\<open>register\<close>.
\<close>

lemma slots_typed_reset: "slots_typed (formValues (reset s))"
  by (simp add: formValues_reset slots_typed_def list_all_iff)

lemma slots_typed_dispatch:
  assumes "slots_typed (formValues s)"
  shows "slots_typed (formValues (dispatch e s))"
proof (cases e)
  case (Submit token http data)
  then show ?thesis
    using assms onSubmit_state [of token http data s] by (auto simp: slots_typed_reset)
next
  case (FieldInput fieldName v)
  then show ?thesis
    using assms
    by (auto simp: slots_typed_def setValue_def imageFields_def videoFields_def registered_def)
next
  case (AmenityToggle amenity)
  then show ?thesis
    using assms
    by (simp add: slots_typed_def handleAmenityToggle_def Let_def setValue_def
        imageFields_def videoFields_def)
next
  case (FileChange fieldName ty chosen)
  then show ?thesis
    using assms
    by (auto simp: slots_typed_def handleFileChange_def Let_def setValue_def list_all_iff
        split: option.splits)
next
  case (RemoveFile fieldName ty)
  then show ?thesis
    using assms
    by (auto simp: slots_typed_def removeFile_def Let_def setValue_def list_all_iff)
qed (use assms in \<open>auto simp: fetchCategories_def onloadend_def nextStep_def prevStep_def Let_def
        split: settled.splits option.splits thrown.splits prod.splits\<close>)

lemma reachable_slots_typed: "reachable s \<Longrightarrow> slots_typed (formValues s)"
proof (induction rule: reachable.induct)
  case reachable_mounted
  show ?case
    by (simp add: mounted_def defaultValues_def slots_typed_def imageFields_def videoFields_def)
next
  case (reachable_event s e)
  then show ?case by (simp add: slots_typed_dispatch)
qed

text \<open>
  Between two events no submission is under way: \<^verbatim>\<open>isLoading\<close> is false.
\<close>

lemma idle_dispatch:
  assumes "\<not> isLoading s"
  shows "\<not> isLoading (dispatch e s)"
proof (cases e)
  case (Submit token http data)
  then show ?thesis
    using assms onSubmit_state [of token http data s] by (auto simp: reset_fields)
qed (use assms in \<open>auto simp: fetchCategories_def setValue_def handleAmenityToggle_def
        handleFileChange_def onloadend_def removeFile_def nextStep_def prevStep_def Let_def
        split: settled.splits option.splits thrown.splits prod.splits\<close>)

lemma reachable_idle: "reachable s \<Longrightarrow> \<not> isLoading s"
  by (induction rule: reachable.induct) (simp_all add: mounted_def idle_dispatch)

subsection \<open>Steps\<close>

text \<open>
  C9. In every reachable state the step index is between 1 and 5. \<^verbatim>\<open>nextStep\<close> moves it
  to \<^verbatim>\<open>min(step + 1, 5)\<close> when \<^verbatim>\<open>validateStep\<close> returns true and leaves it alone otherwise;
  so below step 5 it goes up by exactly one if and only if the validation passes, and it
  never passes 5. \<^verbatim>\<open>prevStep\<close> validates nothing and moves the index to
  \<^verbatim>\<open>max(step - 1, 1)\<close>; so above step 1 it goes down by exactly one, and it never passes 1.
\<close>

theorem step_navigation:
  assumes "reachable s"
  shows "1 \<le> step s \<and> step s \<le> 5 \<and>
         step (fst (nextStep trigger s)) =
           (if fst (validateStep trigger s) then min (step s + 1) 5 else step s) \<and>
         (step s < 5 \<longrightarrow>
            (step (fst (nextStep trigger s)) = step s + 1 \<longleftrightarrow> fst (validateStep trigger s))) \<and>
         step (prevStep s) = max (step s - 1) 1 \<and>
         (1 < step s \<longrightarrow> step (prevStep s) = step s - 1)"
  using reachable_step [OF assms]
  by (auto simp: nextStep_def prevStep_def split: prod.splits)

text \<open>
  From the second step, reached from the mounted form by one accepted \<^verbatim>\<open>nextStep\<close>: an
  accepted \<^verbatim>\<open>nextStep\<close> leads to step 3, a refused one stays on step 2, and \<^verbatim>\<open>prevStep\<close>
  leads back to step 1.
\<close>

theorem step_navigation_witness:
  "reachable (dispatch (NextStep (\<lambda>names values. True)) mounted) \<and>
   step (dispatch (NextStep (\<lambda>names values. True)) mounted) = 2 \<and>
   step (fst (nextStep (\<lambda>names values. True)
                (dispatch (NextStep (\<lambda>names values. True)) mounted))) = 3 \<and>
   step (fst (nextStep (\<lambda>names values. False)
                (dispatch (NextStep (\<lambda>names values. True)) mounted))) = 2 \<and>
   step (prevStep (dispatch (NextStep (\<lambda>names values. True)) mounted)) = 1"
proof -
  let ?s = "dispatch (NextStep (\<lambda>names values. True)) mounted"
  have r: "reachable ?s"
    by (rule reachable_event) (rule reachable_mounted)
  have st: "step ?s = 2"
    by (simp add: nextStep_def validateStep_def mounted_def)
  have v: "fst (validateStep (\<lambda>names values. True) ?s)"
    "\<not> fst (validateStep (\<lambda>names values. False) ?s)"
    using st by (simp_all add: validateStep_def)
  from step_navigation [OF r, of "\<lambda>names values. True"] st v
  have a: "step (fst (nextStep (\<lambda>names values. True) ?s)) = 3"
    and b: "step (prevStep ?s) = 1"
    by simp_all
  from step_navigation [OF r, of "\<lambda>names values. False"] st v
  have c: "step (fst (nextStep (\<lambda>names values. False) ?s)) = 2"
    by simp
  from r st a b c show ?thesis
    by (intro conjI)
qed

subsection \<open>Submission\<close>

text \<open>
  A submission on step 5 with an image, a video and a token: what \<^verbatim>\<open>onSubmit\<close> returns
  for each way the request can settle.
\<close>

lemma onSubmit_sent:
  assumes "step s = 5"
    and "list_ex (\<lambda>field. truthy (lookup data field)) imageFields"
    and "list_ex (\<lambda>field. truthy (lookup data field)) videoFields"
    and "\<not> no_token token"
  shows "onSubmit token http data s =
          ((case http of Resolved (Some True) \<Rightarrow> reset s | _ \<Rightarrow> s)\<lparr>isLoading := False\<rparr>,
           (case http of
              Resolved (Some True) \<Rightarrow> [(''Property successfully added!'', Success)]
            | Resolved _ \<Rightarrow> []
            | Rejected e \<Rightarrow> submit_failed e),
           [\<lparr>verb = POST, url = ''https://api.rent9ja.com.ng/api/apartment'',
             headers = [(''Authorization'', bearer token), (''Accept'', ''application/json''),
                        (''Content-Type'', ''multipart/form-data'')],
             withCredentials = True, body = buildFormData (selectedAmenities s) data\<rparr>])"
  using assms
  by (simp add: onSubmit_def Let_def submit_failed_def split: settled.splits option.splits bool.splits)

text \<open>
  The example form is on step 5, its data hold an image and a video, and a token is
  stored.
\<close>

lemma listing_files:
  "list_ex (\<lambda>field. truthy (lookup listing field)) imageFields"
  "list_ex (\<lambda>field. truthy (lookup listing field)) videoFields"
  by (simp_all add: imageFields_def videoFields_def lookup_def listing_def)

lemma media_step_5: "step media_step = 5"
  by (simp add: media_step_def)

lemma token_present: "\<not> no_token (Some ''token'')"
  by (simp add: no_token_def)

lemma listing_slots:
  "''image1'' \<in> set imageFields" "lookup listing ''image1'' = FileV photo"
  "''video1'' \<in> set videoFields" "lookup listing ''video1'' = FileV clip"
  by (simp_all add: imageFields_def videoFields_def lookup_def listing_def)

lemma set_buildFormData:
  "set (buildFormData amenities data) =
     (\<Union>entry \<in> set data. set (formData_entry amenities entry)) \<union>
     {(''published'', Text ''false''), (''can_rate'', Text ''false'')}"
  by (auto simp: buildFormData_def)

lemma formData_entry_key:
  "(k, p) \<in> set (formData_entry amenities (key, v)) \<Longrightarrow> k = key"
  by (cases v) (auto split: if_splits)

lemma formData_entry_empty:
  "key \<noteq> ''amenities'' \<Longrightarrow> v = Null \<or> v = Undefined \<Longrightarrow> formData_entry amenities (key, v) = []"
  by auto

text \<open>
  C5 (as amended). A submission on step 5 with at least one image and one video present
  and with an authentication token in local storage sends exactly one request, however it
  settles: a multipart \<^verbatim>\<open>POST\<close> whose body holds every scalar field that is neither \<^verbatim>\<open>null\<close>
  nor \<^verbatim>\<open>undefined\<close> (a string as it is, a number in decimal), the selected amenities as a
  JSON list under the key \<^verbatim>\<open>amenities\<close>, every file under the key of its field, and the
  two entries \<^verbatim>\<open>published = false\<close> and \<^verbatim>\<open>can_rate = false\<close>; a field whose value is \<^verbatim>\<open>null\<close>
  or \<^verbatim>\<open>undefined\<close> has no entry.
\<close>

theorem onSubmit_request:
  assumes "step s = 5"
    and "imageField \<in> set imageFields" and "lookup data imageField = FileV f"
    and "videoField \<in> set videoFields" and "lookup data videoField = FileV g"
    and "\<not> no_token token"
  shows "\<exists>req. snd (snd (onSubmit token http data s)) = [req] \<and>
           verb req = POST \<and> url req = ''https://api.rent9ja.com.ng/api/apartment'' \<and>
           (''Content-Type'', ''multipart/form-data'') \<in> set (headers req) \<and>
           (\<forall>k str. (k, Str str) \<in> set data \<and> k \<noteq> ''amenities'' \<longrightarrow>
              (k, Text str) \<in> set (body req)) \<and>
           (\<forall>k n. (k, Num n) \<in> set data \<and> k \<noteq> ''amenities'' \<longrightarrow>
              (k, Text (show_int n)) \<in> set (body req)) \<and>
           (\<forall>v. (''amenities'', v) \<in> set data \<and> \<not> instanceof_File v \<longrightarrow>
              (''amenities'', Text (JSON_stringify (selectedAmenities s))) \<in> set (body req)) \<and>
           (\<forall>k file. (k, FileV file) \<in> set data \<longrightarrow> (k, Blob file) \<in> set (body req)) \<and>
           (''published'', Text ''false'') \<in> set (body req) \<and>
           (''can_rate'', Text ''false'') \<in> set (body req) \<and>
           (\<forall>k. k \<notin> {''amenities'', ''published'', ''can_rate''} \<and>
                (\<forall>v. (k, v) \<in> set data \<longrightarrow> v = Null \<or> v = Undefined) \<longrightarrow>
              k \<notin> fst ` set (body req))"
proof -
  have im: "list_ex (\<lambda>field. truthy (lookup data field)) imageFields"
    using assms(2,3) by (auto simp: list_ex_iff intro!: bexI [of _ imageField])
  have vi: "list_ex (\<lambda>field. truthy (lookup data field)) videoFields"
    using assms(4,5) by (auto simp: list_ex_iff intro!: bexI [of _ videoField])
  let ?B = "buildFormData (selectedAmenities s) data"
  have strs: "\<forall>k str. (k, Str str) \<in> set data \<and> k \<noteq> ''amenities'' \<longrightarrow> (k, Text str) \<in> set ?B"
    by (force simp: set_buildFormData)
  have nums: "\<forall>k n. (k, Num n) \<in> set data \<and> k \<noteq> ''amenities'' \<longrightarrow>
      (k, Text (show_int n)) \<in> set ?B"
    by (force simp: set_buildFormData)
  have amen: "\<forall>v. (''amenities'', v) \<in> set data \<and> \<not> instanceof_File v \<longrightarrow>
      (''amenities'', Text (JSON_stringify (selectedAmenities s))) \<in> set ?B"
  proof (intro allI impI)
    fix v assume a: "(''amenities'', v) \<in> set data \<and> \<not> instanceof_File v"
    then have "formData_entry (selectedAmenities s) (''amenities'', v) =
        [(''amenities'', Text (JSON_stringify (selectedAmenities s)))]"
      by (cases v) auto
    with a show "(''amenities'', Text (JSON_stringify (selectedAmenities s))) \<in> set ?B"
      by (force simp: set_buildFormData)
  qed
  have files: "\<forall>k file. (k, FileV file) \<in> set data \<longrightarrow> (k, Blob file) \<in> set ?B"
    by (force simp: set_buildFormData)
  have fixed: "(''published'', Text ''false'') \<in> set ?B" "(''can_rate'', Text ''false'') \<in> set ?B"
    by (simp_all add: set_buildFormData)
  have omitted: "\<forall>k. k \<notin> {''amenities'', ''published'', ''can_rate''} \<and>
      (\<forall>v. (k, v) \<in> set data \<longrightarrow> v = Null \<or> v = Undefined) \<longrightarrow> k \<notin> fst ` set ?B"
  proof (intro allI impI notI)
    fix k
    assume h: "k \<notin> {''amenities'', ''published'', ''can_rate''} \<and>
      (\<forall>v. (k, v) \<in> set data \<longrightarrow> v = Null \<or> v = Undefined)"
    assume "k \<in> fst ` set ?B"
    then obtain p where "(k, p) \<in> set ?B" by auto
    with h obtain key v where e: "(key, v) \<in> set data"
      and m: "(k, p) \<in> set (formData_entry (selectedAmenities s) (key, v))"
      by (auto simp: set_buildFormData)
    from m have "k = key" by (rule formData_entry_key)
    with e h have "v = Null \<or> v = Undefined" and "key \<noteq> ''amenities''" by auto
    then have "formData_entry (selectedAmenities s) (key, v) = []"
      using formData_entry_empty by blast
    with m show False by simp
  qed
  show ?thesis
    using strs nums amen files fixed omitted
    by (simp add: onSubmit_sent [OF assms(1) im vi assms(6)])
qed

text \<open>
  The scenario of the specification: one image of 2 MB, one video of 5 MB, the scalar
  fields filled in, the description \<^verbatim>\<open>null\<close>.
\<close>

theorem onSubmit_request_witness:
  "step media_step = 5 \<and> ''image1'' \<in> set imageFields \<and> lookup listing ''image1'' = FileV photo \<and>
   ''video1'' \<in> set videoFields \<and> lookup listing ''video1'' = FileV clip \<and>
   \<not> no_token (Some ''token'') \<and>
   (\<exists>req. snd (snd (onSubmit (Some ''token'') (Resolved (Some True)) listing media_step)) = [req] \<and>
      (''title'', Text ''Flat'') \<in> set (body req) \<and>
      (''amenities'', Text (JSON_stringify [''WiFi''])) \<in> set (body req) \<and>
      (''image1'', Blob photo) \<in> set (body req) \<and>
      (''video1'', Blob clip) \<in> set (body req) \<and>
      (''published'', Text ''false'') \<in> set (body req) \<and>
      (''can_rate'', Text ''false'') \<in> set (body req) \<and>
      ''description'' \<notin> fst ` set (body req))"
proof -
  from onSubmit_request [OF media_step_5 listing_slots token_present,
      of "Resolved (Some True)"]
  obtain req where R:
    "snd (snd (onSubmit (Some ''token'') (Resolved (Some True)) listing media_step)) = [req] \<and>
           verb req = POST \<and> url req = ''https://api.rent9ja.com.ng/api/apartment'' \<and>
           (''Content-Type'', ''multipart/form-data'') \<in> set (headers req) \<and>
           (\<forall>k str. (k, Str str) \<in> set listing \<and> k \<noteq> ''amenities'' \<longrightarrow>
              (k, Text str) \<in> set (body req)) \<and>
           (\<forall>k n. (k, Num n) \<in> set listing \<and> k \<noteq> ''amenities'' \<longrightarrow>
              (k, Text (show_int n)) \<in> set (body req)) \<and>
           (\<forall>v. (''amenities'', v) \<in> set listing \<and> \<not> instanceof_File v \<longrightarrow>
              (''amenities'', Text (JSON_stringify (selectedAmenities media_step))) \<in> set (body req)) \<and>
           (\<forall>k file. (k, FileV file) \<in> set listing \<longrightarrow> (k, Blob file) \<in> set (body req)) \<and>
           (''published'', Text ''false'') \<in> set (body req) \<and>
           (''can_rate'', Text ''false'') \<in> set (body req) \<and>
           (\<forall>k. k \<notin> {''amenities'', ''published'', ''can_rate''} \<and>
                (\<forall>v. (k, v) \<in> set listing \<longrightarrow> v = Null \<or> v = Undefined) \<longrightarrow>
              k \<notin> fst ` set (body req))"
    ..
  note one = R [THEN conjunct1]
  note R4 = R [THEN conjunct2, THEN conjunct2, THEN conjunct2, THEN conjunct2]
  note strs = R4 [THEN conjunct1]
  note amen = R4 [THEN conjunct2, THEN conjunct2, THEN conjunct1]
  note files = R4 [THEN conjunct2, THEN conjunct2, THEN conjunct2, THEN conjunct1]
  note R8 = R4 [THEN conjunct2, THEN conjunct2, THEN conjunct2, THEN conjunct2]
  note fixed = R8 [THEN conjunct1] R8 [THEN conjunct2, THEN conjunct1]
  note omitted = R8 [THEN conjunct2, THEN conjunct2]
  have "(''title'', Str ''Flat'') \<in> set listing \<and> ''title'' \<noteq> ''amenities''"
    by (simp add: listing_def)
  with strs have t: "(''title'', Text ''Flat'') \<in> set (body req)" by blast
  have "(''amenities'', Arr [''WiFi'']) \<in> set listing \<and> \<not> instanceof_File (Arr [''WiFi''])"
    by (simp add: listing_def)
  with amen have "(''amenities'', Text (JSON_stringify (selectedAmenities media_step))) \<in> set (body req)"
    by blast
  then have a: "(''amenities'', Text (JSON_stringify [''WiFi''])) \<in> set (body req)"
    by (simp add: media_step_def)
  have "(''image1'', FileV photo) \<in> set listing" "(''video1'', FileV clip) \<in> set listing"
    by (simp_all add: listing_def)
  with files have f: "(''image1'', Blob photo) \<in> set (body req)" "(''video1'', Blob clip) \<in> set (body req)"
    by blast+
  have "''description'' \<notin> {''amenities'', ''published'', ''can_rate''} \<and>
      (\<forall>v. (''description'', v) \<in> set listing \<longrightarrow> v = Null \<or> v = Undefined)"
    by (simp add: listing_def)
  then have d: "''description'' \<notin> fst ` set (body req)"
    by (rule omitted [THEN spec, THEN mp])
  from one t a f fixed d have
    "snd (snd (onSubmit (Some ''token'') (Resolved (Some True)) listing media_step)) = [req] \<and>
      (''title'', Text ''Flat'') \<in> set (body req) \<and>
      (''amenities'', Text (JSON_stringify [''WiFi''])) \<in> set (body req) \<and>
      (''image1'', Blob photo) \<in> set (body req) \<and>
      (''video1'', Blob clip) \<in> set (body req) \<and>
      (''published'', Text ''false'') \<in> set (body req) \<and>
      (''can_rate'', Text ''false'') \<in> set (body req) \<and>
      ''description'' \<notin> fst ` set (body req)"
    by (intro conjI)
  then have "\<exists>req. snd (snd (onSubmit (Some ''token'') (Resolved (Some True)) listing media_step)) = [req] \<and>
      (''title'', Text ''Flat'') \<in> set (body req) \<and>
      (''amenities'', Text (JSON_stringify [''WiFi''])) \<in> set (body req) \<and>
      (''image1'', Blob photo) \<in> set (body req) \<and>
      (''video1'', Blob clip) \<in> set (body req) \<and>
      (''published'', Text ''false'') \<in> set (body req) \<and>
      (''can_rate'', Text ''false'') \<in> set (body req) \<and>
      ''description'' \<notin> fst ` set (body req)"
    by (rule exI)
  with media_step_5 listing_slots token_present show ?thesis
    by (intro conjI)

qed

text \<open>
  Without the token the statement of the specification fails: the same submission sends
  no request.
\<close>

theorem onSubmit_request_counterexample:
  "step media_step = 5 \<and>
   instanceof_File (lookup listing ''image1'') \<and> instanceof_File (lookup listing ''video1'') \<and>
   snd (snd (onSubmit None (Resolved (Some True)) listing media_step)) = []"
  by (simp add: onSubmit_def Let_def listing_files media_step_5 listing_slots no_token_def)

text \<open>
  What a freshly mounted instance reads for the fields that the reset writes.
\<close>

lemma formValues_mounted:
  "formValues mounted =
    (\<lambda>k. if k = ''category_id'' \<or> k = ''title'' \<or> k = ''number_of_rooms'' \<or>
            k = ''description'' then Str []
         else if k = ''amenities'' then Arr []
         else if k = ''currency_code'' then Str ''NGN''
         else if k = ''country_code'' then Str ''NG''
         else Undefined)"
  by (rule ext) (simp add: mounted_def defaultValues_def)

lemma mounted_fields:
  "step mounted = 1" "imagePreview mounted = Map.empty" "videoPreview mounted = Map.empty"
  "selectedAmenities mounted = []"
  by (simp_all add: mounted_def)

text \<open>
  C2 (as amended). After a submission whose response carries a truthy success flag, the
  step index (1), both preview maps (empty), the selected amenities (none) and the fields
  \<^verbatim>\<open>amenities\<close> (\<^verbatim>\<open>[]\<close>), \<^verbatim>\<open>currency_code\<close> (\<^verbatim>\<open>NGN\<close>), \<^verbatim>\<open>country_code\<close> (\<^verbatim>\<open>NG\<close>) and \<^verbatim>\<open>title\<close>
  (the empty string) equal those of a freshly mounted instance. The other fields do not
  return to what a freshly mounted instance reads for them; they hold the values the reset
  writes: \<^verbatim>\<open>category_id\<close>, \<^verbatim>\<open>amount\<close> and \<^verbatim>\<open>duration\<close> are 0, \<^verbatim>\<open>state_code\<close> and
  \<^verbatim>\<open>city_code\<close> are the empty string, \<^verbatim>\<open>duration_type\<close> is \<^verbatim>\<open>month\<close>, and \<^verbatim>\<open>description\<close>,
  \<^verbatim>\<open>number_of_rooms\<close>, \<^verbatim>\<open>security_deposit\<close>, \<^verbatim>\<open>security_deposit_currency_code\<close> and the ten
  file slots are \<^verbatim>\<open>null\<close>.
\<close>

theorem onSubmit_success:
  assumes "step s = 5"
    and "list_ex (\<lambda>field. truthy (lookup data field)) imageFields"
    and "list_ex (\<lambda>field. truthy (lookup data field)) videoFields"
    and "\<not> no_token token"
  shows "(let s' = fst (onSubmit token (Resolved (Some True)) data s) in
          step s' = 1 \<and> step s' = step mounted \<and>
          imagePreview s' = Map.empty \<and> imagePreview s' = imagePreview mounted \<and>
          videoPreview s' = Map.empty \<and> videoPreview s' = videoPreview mounted \<and>
          selectedAmenities s' = [] \<and> selectedAmenities s' = selectedAmenities mounted \<and>
          formValues s' ''amenities'' = Arr [] \<and>
          formValues s' ''currency_code'' = Str ''NGN'' \<and>
          formValues s' ''country_code'' = Str ''NG'' \<and>
          formValues s' ''title'' = Str [] \<and>
          (\<forall>k \<in> {''amenities'', ''currency_code'', ''country_code'', ''title''}.
             formValues s' k = formValues mounted k) \<and>
          (\<forall>k \<in> {''category_id'', ''amount'', ''duration''}. formValues s' k = Num 0) \<and>
          (\<forall>k \<in> {''state_code'', ''city_code''}. formValues s' k = Str []) \<and>
          formValues s' ''duration_type'' = Str ''month'' \<and>
          (\<forall>k \<in> {''description'', ''number_of_rooms'', ''security_deposit'',
                  ''security_deposit_currency_code''} \<union> set imageFields \<union> set videoFields.
             formValues s' k = Null) \<and>
          (\<forall>k \<in> {''category_id'', ''amount'', ''duration'', ''state_code'', ''city_code'',
                  ''duration_type'', ''description'', ''number_of_rooms'', ''security_deposit'',
                  ''security_deposit_currency_code''} \<union> set imageFields \<union> set videoFields.
             formValues s' k \<noteq> formValues mounted k))"
proof -
  have "fst (onSubmit token (Resolved (Some True)) data s) = (reset s)\<lparr>isLoading := False\<rparr>"
    by (simp add: onSubmit_sent [OF assms])
  then show ?thesis
    by (simp add: Let_def reset_fields formValues_reset formValues_mounted mounted_fields
        imageFields_def videoFields_def)
qed

text \<open>
  The example submission, accepted by the server.
\<close>

theorem onSubmit_success_witness:
  "step media_step = 5 \<and>
   list_ex (\<lambda>field. truthy (lookup listing field)) imageFields \<and>
   list_ex (\<lambda>field. truthy (lookup listing field)) videoFields \<and>
   \<not> no_token (Some ''token'') \<and>
   step (fst (onSubmit (Some ''token'') (Resolved (Some True)) listing media_step)) = 1 \<and>
   formValues (fst (onSubmit (Some ''token'') (Resolved (Some True)) listing media_step))
     ''title'' = formValues mounted ''title'' \<and>
   formValues (fst (onSubmit (Some ''token'') (Resolved (Some True)) listing media_step))
     ''image1'' = Null \<and>
   formValues (fst (onSubmit (Some ''token'') (Resolved (Some True)) listing media_step))
     ''category_id'' \<noteq> formValues mounted ''category_id''"
proof -
  let ?s' = "fst (onSubmit (Some ''token'') (Resolved (Some True)) listing media_step)"
  note fact = onSubmit_success [OF media_step_5 listing_files token_present, unfolded Let_def]
  note rest = fact [THEN conjunct2, THEN conjunct2, THEN conjunct2, THEN conjunct2,
      THEN conjunct2, THEN conjunct2, THEN conjunct2, THEN conjunct2,
      THEN conjunct2, THEN conjunct2, THEN conjunct2, THEN conjunct2]
  note last = rest [THEN conjunct2, THEN conjunct2, THEN conjunct2, THEN conjunct2]
  from fact have a: "step ?s' = 1"
    by (rule conjunct1)
  from rest [THEN conjunct1] have b: "formValues ?s' ''title'' = formValues mounted ''title''"
    by simp
  from last [THEN conjunct1] have c: "formValues ?s' ''image1'' = Null"
    by (simp add: imageFields_def)
  from last [THEN conjunct2]
  have d: "formValues ?s' ''category_id'' \<noteq> formValues mounted ''category_id''"
    by simp
  from media_step_5 listing_files token_present a b c d show ?thesis
    by (intro conjI)
qed

text \<open>
  The state after it is not the state of a freshly mounted instance: \<^verbatim>\<open>duration_type\<close>
  is \<^verbatim>\<open>month\<close>, and in a freshly mounted instance, which has not rendered the input of
  that field yet, it is not set.
\<close>

theorem onSubmit_success_counterexample:
  "step media_step = 5 \<and>
   instanceof_File (lookup listing ''image1'') \<and> instanceof_File (lookup listing ''video1'') \<and>
   \<not> no_token (Some ''token'') \<and>
   formValues (fst (onSubmit (Some ''token'') (Resolved (Some True)) listing media_step))
     ''duration_type'' \<noteq> formValues mounted ''duration_type''"
proof -
  have "formValues (fst (onSubmit (Some ''token'') (Resolved (Some True)) listing media_step))
     ''duration_type'' = Str ''month''"
    by (simp add: onSubmit_sent [OF media_step_5 listing_files token_present] formValues_reset
        imageFields_def videoFields_def)
  moreover have "formValues mounted ''duration_type'' = Undefined"
    by (simp add: formValues_mounted)
  ultimately show ?thesis
    by (simp add: media_step_5 token_present lookup_def listing_def)
qed

text \<open>
  C10. When the request of a submission completes and the success flag of the response
  is not truthy, \<^verbatim>\<open>onSubmit\<close> shows no notice and returns the state it was given, with
  \<^verbatim>\<open>isLoading\<close> false: the form fields, both preview maps, the amenities and the step index
  are unchanged. Whenever \<^verbatim>\<open>onSubmit\<close> gets as far as \<^verbatim>\<open>setIsLoading(true)\<close>, \<^verbatim>\<open>isLoading\<close> is
  false when it ends, whatever the token and however the request settles; and if
  \<^verbatim>\<open>isLoading\<close> was false before a submission, it is false after it.
\<close>

theorem onSubmit_unsuccessful:
  "(step s = 5 \<and> list_ex (\<lambda>field. truthy (lookup data field)) imageFields \<and>
    list_ex (\<lambda>field. truthy (lookup data field)) videoFields \<and> \<not> no_token token \<and>
    flag \<noteq> Some True \<longrightarrow>
      fst (onSubmit token (Resolved flag) data s) = s\<lparr>isLoading := False\<rparr> \<and>
      fst (snd (onSubmit token (Resolved flag) data s)) = []) \<and>
   (step s = 5 \<and> list_ex (\<lambda>field. truthy (lookup data field)) imageFields \<and>
    list_ex (\<lambda>field. truthy (lookup data field)) videoFields \<longrightarrow>
      \<not> isLoading (fst (onSubmit token http data s))) \<and>
   (\<not> isLoading s \<longrightarrow> \<not> isLoading (fst (onSubmit token http data s)))"
proof (intro conjI impI)
  assume a: "step s = 5 \<and> list_ex (\<lambda>field. truthy (lookup data field)) imageFields \<and>
    list_ex (\<lambda>field. truthy (lookup data field)) videoFields \<and> \<not> no_token token \<and>
    flag \<noteq> Some True"
  then have sent: "onSubmit token (Resolved flag) data s =
      (s\<lparr>isLoading := False\<rparr>, [], 
       [\<lparr>verb = POST, url = ''https://api.rent9ja.com.ng/api/apartment'',
             headers = [(''Authorization'', bearer token), (''Accept'', ''application/json''),
                        (''Content-Type'', ''multipart/form-data'')],
             withCredentials = True, body = buildFormData (selectedAmenities s) data\<rparr>])"
    by (cases flag) (auto simp: onSubmit_sent)
  show "fst (onSubmit token (Resolved flag) data s) = s\<lparr>isLoading := False\<rparr>"
    by (simp add: sent)
  show "fst (snd (onSubmit token (Resolved flag) data s)) = []"
    by (simp add: sent)
next
  assume "step s = 5 \<and> list_ex (\<lambda>field. truthy (lookup data field)) imageFields \<and>
    list_ex (\<lambda>field. truthy (lookup data field)) videoFields"
  then show "\<not> isLoading (fst (onSubmit token http data s))"
    by (simp add: onSubmit_def Let_def split: settled.splits option.splits)
next
  assume "\<not> isLoading s"
  then show "\<not> isLoading (fst (onSubmit token http data s))"
    using onSubmit_state [of token http data s] by (auto simp: reset_fields)
qed

text \<open>
  The example submission, answered with a false success flag, and answered with an
  error.
\<close>

theorem onSubmit_unsuccessful_witness:
  "step media_step = 5 \<and>
   list_ex (\<lambda>field. truthy (lookup listing field)) imageFields \<and>
   list_ex (\<lambda>field. truthy (lookup listing field)) videoFields \<and>
   \<not> no_token (Some ''token'') \<and> \<not> isLoading media_step \<and>
   fst (onSubmit (Some ''token'') (Resolved (Some False)) listing media_step) = media_step \<and>
   fst (snd (onSubmit (Some ''token'') (Resolved (Some False)) listing media_step)) = [] \<and>
   \<not> isLoading (fst (onSubmit (Some ''token'') (Rejected (AxiosError None)) listing media_step))"
proof -
  have idle: "\<not> isLoading media_step" "media_step\<lparr>isLoading := False\<rparr> = media_step"
    by (simp_all add: media_step_def)
  have flag: "Some False \<noteq> Some True"
    by simp
  note fact = onSubmit_unsuccessful [of media_step listing "Some ''token''" "Some False"
      "Rejected (AxiosError None)"]
  from fact media_step_5 listing_files token_present flag
  have "fst (onSubmit (Some ''token'') (Resolved (Some False)) listing media_step) =
      media_step\<lparr>isLoading := False\<rparr>"
    and "fst (snd (onSubmit (Some ''token'') (Resolved (Some False)) listing media_step)) = []"
    by blast+
  moreover from fact idle(1)
  have "\<not> isLoading (fst (onSubmit (Some ''token'') (Rejected (AxiosError None)) listing media_step))"
    by blast
  ultimately show ?thesis
    using media_step_5 listing_files token_present idle by simp
qed

text \<open>
  C7 (as amended). When the request of a submission fails with an axios error, one
  notice is shown, chosen by the HTTP status: the session-expired message for 401, the
  retry-later message for 503, and otherwise the message of the server's response or,
  when there is none, the fallback text. An error that is not an axios error is caught
  without any notice. In both cases the state is the one before the submission with
  \<^verbatim>\<open>isLoading\<close> false (nothing is reset) and exactly one request was sent (no retry).
\<close>

theorem onSubmit_failure:
  assumes "step s = 5"
    and "list_ex (\<lambda>field. truthy (lookup data field)) imageFields"
    and "list_ex (\<lambda>field. truthy (lookup data field)) videoFields"
    and "\<not> no_token token"
  shows "fst (onSubmit token (Rejected e) data s) = s\<lparr>isLoading := False\<rparr> \<and>
         length (snd (snd (onSubmit token (Rejected e) data s))) = 1 \<and>
         (\<forall>m. e = AxiosError (Some \<lparr>status = 401, message = m\<rparr>) \<longrightarrow>
            fst (snd (onSubmit token (Rejected e) data s)) =
              [(''Your session has expired. Please login again.'', Error)]) \<and>
         (\<forall>m. e = AxiosError (Some \<lparr>status = 503, message = m\<rparr>) \<longrightarrow>
            fst (snd (onSubmit token (Rejected e) data s)) =
              [(''Service temporarily unavailable. Please try again later.'', Error)]) \<and>
         (\<forall>code m. e = AxiosError (Some \<lparr>status = code, message = Some m\<rparr>) \<and>
              code \<noteq> 401 \<and> code \<noteq> 503 \<and> m \<noteq> [] \<longrightarrow>
            fst (snd (onSubmit token (Rejected e) data s)) = [(m, Error)]) \<and>
         (\<forall>code m. e = AxiosError (Some \<lparr>status = code, message = m\<rparr>) \<and>
              code \<noteq> 401 \<and> code \<noteq> 503 \<and> (m = None \<or> m = Some []) \<longrightarrow>
            fst (snd (onSubmit token (Rejected e) data s)) =
              [(''Failed to add property. Please try again.'', Error)]) \<and>
         (e = AxiosError None \<longrightarrow>
            fst (snd (onSubmit token (Rejected e) data s)) =
              [(''Failed to add property. Please try again.'', Error)]) \<and>
         (\<forall>x. e = Thrown x \<longrightarrow> fst (snd (onSubmit token (Rejected e) data s)) = [])"
  by (auto simp: onSubmit_sent [OF assms] submit_failed_def)

text \<open>
  The example submission, answered with status 401.
\<close>

theorem onSubmit_failure_witness:
  "step media_step = 5 \<and>
   list_ex (\<lambda>field. truthy (lookup listing field)) imageFields \<and>
   list_ex (\<lambda>field. truthy (lookup listing field)) videoFields \<and>
   \<not> no_token (Some ''token'') \<and>
   fst (onSubmit (Some ''token'')
          (Rejected (AxiosError (Some \<lparr>status = 401, message = Some ''Unauthenticated.''\<rparr>)))
          listing media_step) = media_step \<and>
   fst (snd (onSubmit (Some ''token'')
          (Rejected (AxiosError (Some \<lparr>status = 401, message = Some ''Unauthenticated.''\<rparr>)))
          listing media_step)) = [(''Your session has expired. Please login again.'', Error)]"
proof -
  let ?e = "AxiosError (Some \<lparr>status = 401, message = Some ''Unauthenticated.''\<rparr>)"
  note fact = onSubmit_failure [OF media_step_5 listing_files token_present, of ?e]
  have idle: "media_step\<lparr>isLoading := False\<rparr> = media_step"
    by (simp add: media_step_def)
  from fact have "fst (onSubmit (Some ''token'') (Rejected ?e) listing media_step) = media_step"
    by (simp only: idle)
  moreover from fact have "fst (snd (onSubmit (Some ''token'') (Rejected ?e) listing media_step)) =
      [(''Your session has expired. Please login again.'', Error)]"
    by blast
  ultimately show ?thesis
    using media_step_5 listing_files token_present by (intro conjI)
qed

text \<open>
  The statement of the specification fails for a failure that is not an axios error: no
  notice is shown.
\<close>

theorem onSubmit_failure_counterexample:
  "step media_step = 5 \<and>
   instanceof_File (lookup listing ''image1'') \<and> instanceof_File (lookup listing ''video1'') \<and>
   \<not> no_token (Some ''token'') \<and>
   fst (snd (onSubmit (Some ''token'') (Rejected (Thrown ''setRequestHeader failed''))
               listing media_step)) = []"
  by (simp add: onSubmit_sent [OF media_step_5 listing_files token_present] submit_failed_def
      media_step_5 listing_slots token_present)

subsection \<open>Calls without a token\<close>

text \<open>
  \<^verbatim>\<open>getUserSubscriptions\<close> and \<^verbatim>\<open>onSubmit\<close> test the token before they send anything.
\<close>

lemma getUserSubscriptions_no_token:
  "no_token token \<Longrightarrow>
   getUserSubscriptions baseURL token http page search =
     (Inl (Thrown ''No authentication token found''), [])"
  by (simp add: getUserSubscriptions_def)

lemma onSubmit_no_token:
  "no_token token \<Longrightarrow> snd (snd (onSubmit token http data s)) = [] \<and>
     (step s = 5 \<and> list_ex (\<lambda>field. truthy (lookup data field)) imageFields \<and>
      list_ex (\<lambda>field. truthy (lookup data field)) videoFields \<longrightarrow>
        fst (snd (onSubmit token http data s)) = [(''Please login to add a property'', Error)])"
  by (simp add: onSubmit_def Let_def)

text \<open>
  C8, at the input where the code departs from it: \<^verbatim>\<open>fetchCategories\<close> does not test
  the token. With no token in local storage it still sends its request, with the header
  \<^verbatim>\<open>Authorization: Bearer null\<close>.
\<close>

theorem fetchCategories_without_token:
  "snd (snd (fetchCategories None http s)) =
     [\<lparr>verb = GET, url = ''https://api.rent9ja.com.ng/api/apartment-types'',
       headers = [(''Authorization'', ''Bearer null''), (''Accept'', ''application/json'')],
       withCredentials = True, body = []\<rparr>]"
  by (simp add: fetchCategories_def bearer_def Let_def split: settled.splits option.splits thrown.splits)

end
